theory Spec2Isabelle
  imports Complex_Main "HOL-Library.Product_Lexorder"
begin

section \<open>Errors and values\<close>

text \<open>
  The exceptions the modelled code paths can raise. A function that can raise returns
  \<open>py_error + 'a\<close>, with \<open>Inl\<close> for the exception.
\<close>

datatype py_error = KeyError | ValueError | IndexError

text \<open>
  Floating-point columns are modelled by exact rationals; a missing value (NaN, NaT) is
  \<open>None\<close>. A bin edge can also be \<open>np.inf\<close>.
\<close>

datatype edge = Fin rat | PInf

fun edge_lt :: "edge \<Rightarrow> rat \<Rightarrow> bool" where
  "edge_lt (Fin b) x = (b < x)"
| "edge_lt PInf x = False"

fun edge_scale :: "edge \<Rightarrow> rat \<Rightarrow> edge" where
  "edge_scale (Fin b) k = Fin (b * k)"
| "edge_scale PInf k = PInf"

fun edge_decreases :: "edge \<Rightarrow> edge \<Rightarrow> bool" where
  "edge_decreases (Fin a) (Fin b) = (b < a)"
| "edge_decreases PInf (Fin b) = True"
| "edge_decreases a PInf = False"

section \<open>Binning (pandas cut and qcut)\<close>

text \<open>
  \<open>searchsorted(x, side='left')\<close> on increasing edges: the number of edges below \<open>x\<close>.
\<close>

definition searchsorted_left :: "edge list \<Rightarrow> rat \<Rightarrow> nat" where
  "searchsorted_left bins x = length (takeWhile (\<lambda>b. edge_lt b x) bins)"

text \<open>
  \<open>_bins_to_cuts\<close> with \<open>right=True\<close>, \<open>duplicates='raise'\<close> and explicit labels:
  duplicate edges raise, the bin index comes from \<open>searchsorted\<close>, \<open>include_lowest\<close>
  moves a value equal to the first edge into the first bin, and an index of \<open>0\<close> or
  \<open>len(bins)\<close> gives a missing label.
\<close>

definition bins_to_cuts ::
  "rat list \<Rightarrow> edge list \<Rightarrow> int list \<Rightarrow> bool \<Rightarrow> py_error + int option list" where
  "bins_to_cuts xs bins labels include_lowest =
     (if length (remdups bins) < length bins \<and> length bins \<noteq> 2 then Inl ValueError
      else if bins = [] then Inl IndexError
      else if \<not> distinct labels then Inl ValueError
      else if Suc (length labels) \<noteq> length bins then Inl ValueError
      else Inr (map (\<lambda>x.
             let ids0 = searchsorted_left bins x;
                 ids = (if include_lowest \<and> Fin x = hd bins then 1 else ids0)
             in if ids = length bins \<or> ids = 0 then None
                else Some (labels ! (ids - 1))) xs))"

fun monotonic_increasing :: "edge list \<Rightarrow> bool" where
  "monotonic_increasing (a # b # bs) = (\<not> edge_decreases a b \<and> monotonic_increasing (b # bs))"
| "monotonic_increasing bs = True"

text \<open>\<open>pd.cut(x, bins=..., labels=..., retbins=True, include_lowest=...)\<close>.\<close>

definition cut ::
  "rat list \<Rightarrow> edge list \<Rightarrow> int list \<Rightarrow> bool \<Rightarrow> py_error + (int option list \<times> edge list)" where
  "cut xs bins labels include_lowest =
     (if \<not> monotonic_increasing bins then Inl ValueError
      else case bins_to_cuts xs bins labels include_lowest of
             Inl e \<Rightarrow> Inl e
           | Inr labs \<Rightarrow> Inr (labs, bins))"

section \<open>RFM Analyzer: scoring\<close>

text \<open>The dictionary \<open>freqs = {'W': 52, 'M': 12, 'Q': 4}\<close> of \<open>add_score\<close>.\<close>

definition freqs :: "string \<Rightarrow> rat option" where
  "freqs freq = (if freq = ''W'' then Some 52 else if freq = ''M'' then Some 12
                 else if freq = ''Q'' then Some 4 else None)"

text \<open>
  The recency part of \<open>add_score\<close>: the list \<open>[0, 0.25, 0.5, 1, np.inf]\<close> scaled by
  \<open>freqs[freq]\<close>, then \<open>pd.cut\<close> with labels \<open>[4, 3, 2, 1]\<close> and \<open>include_lowest=True\<close>.
\<close>

definition r_range :: "string \<Rightarrow> py_error + edge list" where
  "r_range freq =
     (case freqs freq of
        None \<Rightarrow> Inl KeyError
      | Some k \<Rightarrow> Inr (map (\<lambda>x. edge_scale x k) [Fin 0, Fin (1/4), Fin (1/2), Fin 1, PInf]))"

definition recency_score :: "int list \<Rightarrow> string \<Rightarrow> py_error + (int option list \<times> edge list)" where
  "recency_score recency freq =
     (case r_range freq of
        Inl e \<Rightarrow> Inl e
      | Inr bins \<Rightarrow> cut (map of_int recency) bins [4, 3, 2, 1] True)"

section \<open>Dates and periods\<close>

text \<open>
  A \<open>delivery_date\<close> is a calendar date: the builder parses it with the format
  \<open>%Y-%m-%d\<close>, so the time of day is always midnight. Timestamps are compared and
  subtracted through their day number (the proleptic Gregorian ordinal, day 1 being
  0001-01-01, a Monday).
\<close>

datatype date = Date (year: int) (month: nat) (day: nat)

definition is_leap :: "int \<Rightarrow> bool" where
  "is_leap y = (y mod 4 = 0 \<and> (y mod 100 \<noteq> 0 \<or> y mod 400 = 0))"

definition days_in_month :: "int \<Rightarrow> nat \<Rightarrow> nat" where
  "days_in_month y m =
     (if m = 2 then (if is_leap y then 29 else 28)
      else if m = 4 \<or> m = 6 \<or> m = 9 \<or> m = 11 then 30 else 31)"

definition days_before_year :: "int \<Rightarrow> int" where
  "days_before_year y = (y - 1) * 365 + (y - 1) div 4 - (y - 1) div 100 + (y - 1) div 400"

fun days_before_month :: "int \<Rightarrow> nat \<Rightarrow> nat" where
  "days_before_month y 0 = 0"
| "days_before_month y (Suc 0) = 0"
| "days_before_month y (Suc (Suc m)) = days_before_month y (Suc m) + days_in_month y (Suc m)"

definition toordinal :: "date \<Rightarrow> int" where
  "toordinal d =
     days_before_year (year d) + int (days_before_month (year d) (month d)) + int (day d)"

definition valid_date :: "date \<Rightarrow> bool" where
  "valid_date d =
     (1 \<le> month d \<and> month d \<le> 12 \<and> 1 \<le> day d \<and> day d \<le> days_in_month (year d) (month d))"

text \<open>
  \<open>to_period(freq)\<close> as the period's ordinal: months since January 1970 for \<open>'M'\<close>,
  calendar quarters since the first quarter of 1970 for \<open>'Q'\<close>, Monday-to-Sunday weeks
  for \<open>'W'\<close>. Other frequency strings are outside the model.
\<close>

definition to_period :: "string \<Rightarrow> date \<Rightarrow> int" where
  "to_period freq d =
     (if freq = ''M'' then (year d - 1970) * 12 + (int (month d) - 1)
      else if freq = ''Q'' then (year d - 1970) * 4 + (int (month d) - 1) div 3
      else (toordinal d + 6) div 7)"

text \<open>
  \<open>to_period(freq).to_timestamp()\<close>: the first day of the period, as a day number.
\<close>

definition period_start :: "string \<Rightarrow> date \<Rightarrow> int" where
  "period_start freq d =
     (if freq = ''M'' then toordinal (Date (year d) (month d) 1)
      else if freq = ''Q'' then toordinal (Date (year d) (3 * ((month d - 1) div 3) + 1) 1)
      else toordinal d - (toordinal d + 6) mod 7)"

section \<open>The members table as the analyzers read it\<close>

text \<open>
  Both analyzers select the columns \<open>member_ID\<close>, \<open>delivery_date\<close> and (RFM only)
  \<open>order_request_value\<close> of the members table.
\<close>

record member =
  member_ID :: int
  delivery_date :: date
  order_request_value :: "rat option"

text \<open>A table of numbers with a row index and column labels; \<open>None\<close> is NaN.\<close>

record frame =
  index :: "int list"
  columns :: "int list"
  cells :: "rat option list list"

section \<open>Cohort Analyzer\<close>

definition date_min :: "date \<Rightarrow> date \<Rightarrow> date" where
  "date_min a b = (if toordinal a \<le> toordinal b then a else b)"

text \<open>\<open>groupby('member_ID')['delivery_date'].transform('min')\<close> at one row.\<close>

definition first_seen :: "member list \<Rightarrow> member \<Rightarrow> date" where
  "first_seen rows r =
     fold date_min (map delivery_date (filter (\<lambda>s. member_ID s = member_ID r) rows))
       (delivery_date r)"

text \<open>
  The frame \<open>members_cohort\<close> before aggregation: one row
  \<open>(member_ID, delivery_freq, cohort)\<close> per row of the members table.
\<close>

definition with_cohort :: "string \<Rightarrow> member list \<Rightarrow> (int \<times> int \<times> int) list" where
  "with_cohort freq rows =
     map (\<lambda>r. (member_ID r, to_period freq (delivery_date r),
                to_period freq (first_seen rows r))) rows"

text \<open>\<open>nunique\<close> of \<open>member_ID\<close> within the group \<open>(cohort, delivery_freq)\<close>.\<close>

definition nunique :: "(int \<times> int \<times> int) list \<Rightarrow> int \<Rightarrow> int \<Rightarrow> nat" where
  "nunique tagged c f =
     length (remdups (map fst (filter (\<lambda>(m, f', c'). c' = c \<and> f' = f) tagged)))"

text \<open>
  The \<open>groupby(['cohort', 'delivery_freq'])\<close> with \<open>nunique\<close>, and the added
  \<open>period_number\<close>: rows \<open>(cohort, delivery_freq, n_members, period_number)\<close>, sorted
  by the group key.
\<close>

definition members_cohort :: "string \<Rightarrow> member list \<Rightarrow> (int \<times> int \<times> nat \<times> int) list" where
  "members_cohort freq rows =
     (let tagged = with_cohort freq rows
      in map (\<lambda>(c, f). (c, f, nunique tagged c f, f - c))
           (sort (remdups (map (\<lambda>(m, f, c). (c, f)) tagged))))"

text \<open>The default aggregation of \<open>pivot_table\<close>: the mean, NaN for an empty cell.\<close>

definition mean :: "rat list \<Rightarrow> rat option" where
  "mean xs = (if xs = [] then None else Some (sum_list xs / of_nat (length xs)))"

definition pivot_cell :: "(int \<times> int \<times> nat \<times> int) list \<Rightarrow> int \<Rightarrow> int \<Rightarrow> rat option" where
  "pivot_cell agg c p =
     mean (map (\<lambda>(c', f, n, p'). of_nat n) (filter (\<lambda>(c', f, n, p'). c' = c \<and> p' = p) agg))"

text \<open>
  \<open>pivot_table(index='cohort', columns='period_number', values='n_members')\<close>: the
  sorted cohorts label the rows, the sorted period numbers the columns.
\<close>

definition pivot_table :: "(int \<times> int \<times> nat \<times> int) list \<Rightarrow> frame" where
  "pivot_table agg =
     (let idx = sort (remdups (map (\<lambda>(c, f, n, p). c) agg));
          cols = sort (remdups (map (\<lambda>(c, f, n, p). p) agg))
      in \<lparr> index = idx, columns = cols,
           cells = map (\<lambda>c. map (\<lambda>p. pivot_cell agg c p) cols) idx \<rparr>)"

text \<open>
  Floating-point division of two cells. A zero divisor (infinity or NaN in floating
  point) is reported as missing; the theorems on the retention matrix show that the
  divisor is a cohort size of at least one.
\<close>

fun cell_div :: "rat option \<Rightarrow> rat option \<Rightarrow> rat option" where
  "cell_div (Some a) (Some b) = (if b = 0 then None else Some (a / b))"
| "cell_div a b = None"

definition make_retention_matrix :: "member list \<Rightarrow> string \<Rightarrow> py_error + (frame \<times> frame)" where
  "make_retention_matrix df_members freq =
     (if freq \<notin> {''M'', ''Q'', ''W''} then Inl ValueError
      else let cohort_pivot = pivot_table (members_cohort freq df_members)
           in if columns cohort_pivot = [] then Inl IndexError
              else let cohort_size = map hd (cells cohort_pivot);
                       retention_matrix = cohort_pivot
                         \<lparr> cells := map (\<lambda>(row, size). map (\<lambda>v. cell_div v size) row)
                                      (zip (cells cohort_pivot) cohort_size) \<rparr>
                   in Inr (retention_matrix, cohort_pivot))"

text \<open>
  The entry point. An invalid \<open>freq\<close> prints a message and returns \<open>None\<close>; the result
  is the printed lines and the returned value. The plot export only writes a figure and
  is left out.
\<close>

definition cohort_main :: "member list \<Rightarrow> string \<Rightarrow> string list \<times> (py_error + (frame \<times> frame) option)" where
  "cohort_main df_members freq =
     (if freq \<notin> {''M'', ''Q''}
      then ([''Your input is not valid! Choose either {'M', 'Q'} as freq.''], Inr None)
      else let df = filter (\<lambda>r. member_ID r \<noteq> 46) df_members
           in ([], case make_retention_matrix df freq of
                     Inl e \<Rightarrow> Inl e
                   | Inr res \<Rightarrow> Inr (Some res)))"

section \<open>RFM Analyzer: the table\<close>

record rfm_row =
  rfm_member_ID :: int
  recency :: int
  frequency :: nat
  monetary_value :: rat

text \<open>
  The dictionary \<open>freq_timedeltas\<close>, in seconds. Dividing by \<open>np.timedelta64(1, 'M')\<close>
  uses the library's fixed month of 30 days 10:29:06 (a twelfth of 365.2425 days).
\<close>

definition freq_timedeltas :: "string \<Rightarrow> int option" where
  "freq_timedeltas freq =
     (if freq = ''W'' then Some (7 * 86400) else if freq = ''M'' then Some 2629746
      else if freq = ''Q'' then Some (3 * 2629746) else None)"

definition date_max :: "date \<Rightarrow> date \<Rightarrow> date" where
  "date_max a b = (if toordinal a \<le> toordinal b then b else a)"

text \<open>The sum of a float column within a group skips missing values.\<close>

definition nansum :: "rat option list \<Rightarrow> rat" where
  "nansum vs = sum_list (map (\<lambda>v. case v of None \<Rightarrow> 0 | Some x \<Rightarrow> x) vs)"

text \<open>The keys of a \<open>groupby(..., sort=False)\<close>, in order of first appearance.\<close>

definition first_seen_order :: "'a list \<Rightarrow> 'a list" where
  "first_seen_order ks = rev (remdups (rev ks))"

text \<open>
  \<open>make_table\<close>: drop member 46, take the greatest delivery date as \<open>period_end\<close>,
  replace every delivery date by the start of its period, sum the order values per
  (period, member), then per member take the latest period, the number of periods and
  the mean of the sums, and turn the latest period into the recency by floor division
  of the time difference (in seconds) by the length of a period.
\<close>

definition make_table :: "member list \<Rightarrow> string \<Rightarrow> py_error + rfm_row list" where
  "make_table df_members freq =
     (case freq_timedeltas freq of
        None \<Rightarrow> Inl KeyError
      | Some delta \<Rightarrow>
          (case filter (\<lambda>r. member_ID r \<noteq> 46) df_members of
             [] \<Rightarrow> Inr []
           | r0 # rest \<Rightarrow>
               let df = r0 # rest;
                   period_end = fold date_max (map delivery_date rest) (delivery_date r0);
                   tbl = map (\<lambda>r. (period_start freq (delivery_date r), member_ID r,
                                     order_request_value r)) df;
                   summed = map (\<lambda>(d, m). (d, m,
                                 nansum (map (\<lambda>(d', m', v). v)
                                   (filter (\<lambda>(d', m', v). d' = d \<and> m' = m) tbl))))
                              (first_seen_order (map (\<lambda>(d, m, v). (d, m)) tbl))
               in Inr (map (\<lambda>m.
                         let grp = filter (\<lambda>(d, m', v). m' = m) summed;
                             last_period = Max (set (map (\<lambda>(d, m', v). d) grp))
                         in \<lparr> rfm_member_ID = m,
                              recency = ((toordinal period_end - last_period) * 86400) div delta,
                              frequency = length grp,
                              monetary_value =
                                sum_list (map (\<lambda>(d, m', v). v) grp) / of_nat (length grp) \<rparr>)
                       (sort (remdups (map (\<lambda>(d, m, v). m) summed))))))"

section \<open>RFM Analyzer: quartile scores\<close>

text \<open>
  The quantile of a column with linear interpolation between the two nearest ranks.
\<close>

definition quantile :: "rat list \<Rightarrow> rat \<Rightarrow> rat" where
  "quantile xs q =
     (let s = sort xs;
          pos = q * of_nat (length xs - 1);
          lo = nat \<lfloor>pos\<rfloor>;
          frac = pos - of_int \<lfloor>pos\<rfloor>
      in if frac = 0 then s ! lo else s ! lo + (s ! Suc lo - s ! lo) * frac)"

text \<open>
  \<open>pd.qcut(x, 4, retbins=True, labels=range(1, 5))\<close>: the edges are the quantiles at
  0, 1/4, 1/2, 3/4 and 1; equal edges raise. On an empty column every edge is NaN, so
  the edges are not unique and the call raises.
\<close>

definition qcut :: "rat list \<Rightarrow> py_error + (int option list \<times> edge list)" where
  "qcut xs =
     (if xs = [] then Inl ValueError
      else let bins = map (\<lambda>q. Fin (quantile xs q)) [0, 1/4, 1/2, 3/4, 1]
           in case bins_to_cuts xs bins [1, 2, 3, 4] True of
                Inl e \<Rightarrow> Inl e
              | Inr labs \<Rightarrow> Inr (labs, bins))"

record rfm_scored = rfm_row +
  r_score :: "int option"
  f_score :: "int option"
  m_score :: "int option"
  rfm_score :: string

text \<open>\<open>astype(str)\<close> on a score column: the decimal digits of the label, \<open>nan\<close> if missing.\<close>

fun str_nat :: "nat \<Rightarrow> string" where
  "str_nat n =
     (if n < 10 then [char_of (48 + n)] else str_nat (n div 10) @ [char_of (48 + n mod 10)])"

definition str_score :: "int option \<Rightarrow> string" where
  "str_score v =
     (case v of None \<Rightarrow> ''nan''
      | Some i \<Rightarrow> if i < 0 then CHR ''-'' # str_nat (nat (- i)) else str_nat (nat i))"

definition add_score ::
  "rfm_row list \<Rightarrow> string \<Rightarrow> py_error + (rfm_scored list \<times> edge list \<times> edge list \<times> edge list)" where
  "add_score rfm_table freq =
     (case recency_score (map recency rfm_table) freq of
        Inl e \<Rightarrow> Inl e
      | Inr (r_labels, r_bins) \<Rightarrow>
     (case qcut (map (\<lambda>t. of_nat (frequency t)) rfm_table) of
        Inl e \<Rightarrow> Inl e
      | Inr (f_labels, f_bins) \<Rightarrow>
     (case qcut (map monetary_value rfm_table) of
        Inl e \<Rightarrow> Inl e
      | Inr (m_labels, m_bins) \<Rightarrow>
          Inr (map (\<lambda>(t, r, f, m).
                 \<lparr> rfm_member_ID = rfm_member_ID t, recency = recency t,
                   frequency = frequency t, monetary_value = monetary_value t,
                   r_score = r, f_score = f, m_score = m,
                   rfm_score = str_score r @ str_score f @ str_score m \<rparr>)
                 (zip rfm_table (zip r_labels (zip f_labels m_labels))),
               r_bins, f_bins, m_bins))))"

text \<open>
  The entry point. An invalid \<open>freq\<close> prints a message and returns \<open>None\<close>. The CSV and
  plot exports only write files and are left out.
\<close>

definition rfm_main :: "member list \<Rightarrow> string \<Rightarrow> string list \<times> (py_error + rfm_scored list option)" where
  "rfm_main df_members freq =
     (if freq \<notin> {''W'', ''M''}
      then ([''Your input is not valid! Choose either {'W', 'M'} as freq.''], Inr None)
      else ([], case make_table df_members freq of
                  Inl e \<Rightarrow> Inl e
                | Inr rfm_table \<Rightarrow>
                    (case add_score rfm_table freq of
                       Inl e \<Rightarrow> Inl e
                     | Inr (scored, bin_info) \<Rightarrow> Inr (Some scored))))"

section \<open>Properties of the recency score\<close>





section \<open>Invalid granularity\<close>

text \<open>
  C8. A granularity outside \<open>{'M', 'Q'}\<close> makes the Cohort Analyzer entry point, and one
  outside \<open>{'W', 'M'}\<close> the RFM Analyzer entry point, print its message and return
  \<open>None\<close>: no exception is raised and no table is computed, whatever the members table.
\<close>

theorem invalid_freq_returns_early:
  "(freq \<notin> {''M'', ''Q''} \<longrightarrow>
      cohort_main df freq =
        ([''Your input is not valid! Choose either {'M', 'Q'} as freq.''], Inr None)) \<and>
   (freq \<notin> {''W'', ''M''} \<longrightarrow>
      rfm_main df freq =
        ([''Your input is not valid! Choose either {'W', 'M'} as freq.''], Inr None))"
  by (simp add: cohort_main_def rfm_main_def)

theorem invalid_freq_returns_early_witness:
  "''D'' \<notin> {''M'', ''Q''} \<and> ''D'' \<notin> {''W'', ''M''} \<and>
   snd (cohort_main [\<lparr>member_ID = 1, delivery_date = Date 2020 1 6,
                      order_request_value = Some 10\<rparr>] ''D'') = Inr None \<and>
   snd (rfm_main [\<lparr>member_ID = 1, delivery_date = Date 2020 1 6,
                   order_request_value = Some 10\<rparr>] ''D'') = Inr None"
  using invalid_freq_returns_early [of "''D''"
      "[\<lparr>member_ID = 1, delivery_date = Date 2020 1 6, order_request_value = Some 10\<rparr>]"]
  by simp

end
